theory Spec2Isabelle
  imports Complex_Main
begin

section \<open>Order matching and settlement core of the fractional bond marketplace\<close>

text \<open>
  This theory embeds \<^verbatim>\<open>SimpleOrderbookService\<close> (file
  \<^verbatim>\<open>packages/backend/seed.ts\<close>, lines 38 to 380) together with the entities it reads and
  writes (\<^verbatim>\<open>order.entity.ts\<close>, \<^verbatim>\<open>trade.entity.ts\<close>, \<^verbatim>\<open>position.entity.ts\<close>, the
  \<^verbatim>\<open>Portfolio\<close> entity and \<^verbatim>\<open>001_initial_schema.sql\<close>).

  Conventions of the embedding.
  \<^item> The four TypeORM repositories are the four tables of the record \<open>db\<close>; every service
    method takes the database and returns the database it leaves behind. A row returned by
    \<^verbatim>\<open>find\<close>/\<^verbatim>\<open>findOne\<close> is a copy: changing it changes the table only through
    \<^verbatim>\<open>save\<close> or \<^verbatim>\<open>remove\<close>.
  \<^item> Quantities (\<^verbatim>\<open>INTEGER\<close> columns) are \<open>int\<close>. Prices and cash are exact rationals:
    rounding of JavaScript doubles and of \<^verbatim>\<open>DECIMAL(15,2)\<close> columns is outside the model.
    An optional price (\<^verbatim>\<open>priceLimit?: number\<close>) is a \<open>rat option\<close>, \<open>None\<close> being
    \<^verbatim>\<open>undefined\<close> as the type declares it: a comparison with it is false, as in
    JavaScript. (JavaScript's \<^verbatim>\<open>null\<close>, which a comparison reads as 0, is not a value
    of that type and has no counterpart here.)
  \<^item> An order handed to \<^verbatim>\<open>addOrder\<close> is an \<^verbatim>\<open>Order\<close> as the entity declares it, with
    every column set: its id, its filled quantity and its creation time (a natural number,
    say milliseconds) are part of the argument.
  \<^item> \<^verbatim>\<open>avgPricePerUnit\<close> is a \<open>rat option\<close> where \<open>None\<close> stands for a non-finite
    JavaScript number (\<^verbatim>\<open>NaN\<close>, \<^verbatim>\<open>Infinity\<close>), which the division by a zero total
    quantity produces and every later arithmetic step keeps.
  \<^item> A thrown exception is an \<open>error\<close> value. Reading a field of \<^verbatim>\<open>null\<close> is
    \<open>TypeError\<close>; saving a trade without a price violates \<^verbatim>\<open>price_per_unit ... NOT NULL\<close>
    and is \<open>QueryFailed\<close>. Storage itself never fails in the model.
  \<^item> Events sent to the event emitter, log lines, timestamps assigned by the database and
    the trade receipt JSON (a function of the trade's own fields and the clock) are left out.
\<close>

subsection \<open>Entities\<close>

datatype side = BUY | SELL

datatype orderType = MARKET | LIMIT

datatype status = OPEN | EXECUTED | CANCELLED | EXPIRED | PARTIAL

record order =
  orderId :: nat
  userId :: nat
  bondId :: nat
  side :: side
  orderType :: orderType
  priceLimit :: "rat option"
  qtyUnits :: int
  qtyFilledUnits :: int
  status :: status
  createdAt :: nat

record trade =
  buyOrderId :: nat
  sellOrderId :: nat
  tradeBondId :: nat
  pricePerUnit :: rat
  tradeQtyUnits :: int

record position =
  portfolioId :: nat
  posBondId :: nat
  posQtyUnits :: int
  avgPricePerUnit :: "rat option"

record portfolio =
  pfId :: nat
  pfUserId :: nat
  cashBalance :: rat

record db =
  orders :: "order list"
  trades :: "trade list"
  positions :: "position list"
  portfolios :: "portfolio list"

datatype error = InsufficientCash | InsufficientPosition | TypeError | QueryFailed

record orderBookLevel =
  price :: "rat option"
  quantity :: int
  levelOrders :: "order list"

subsection \<open>Repositories\<close>

text \<open>
  \<^verbatim>\<open>save\<close> updates the row that has the entity's key and inserts the entity when there is
  none. Orders and portfolios are keyed by their primary key. Positions are keyed by
  \<^verbatim>\<open>(portfolioId, bondId)\<close>, which the entity declares unique, in place of the generated
  surrogate id.
\<close>

definition upsert :: "('a \<Rightarrow> 'k) \<Rightarrow> 'a \<Rightarrow> 'a list \<Rightarrow> 'a list" where
  "upsert key x xs =
     (if list_ex (\<lambda>y. key y = key x) xs
      then map (\<lambda>y. if key y = key x then x else y) xs
      else xs @ [x])"

definition saveOrder :: "order \<Rightarrow> db \<Rightarrow> db" where
  "saveOrder ord d = d\<lparr>orders := upsert orderId ord (orders d)\<rparr>"

definition saveTrade :: "trade \<Rightarrow> db \<Rightarrow> db" where
  "saveTrade t d = d\<lparr>trades := trades d @ [t]\<rparr>"

definition positionKey :: "position \<Rightarrow> nat \<times> nat" where
  "positionKey p = (portfolioId p, posBondId p)"

definition savePosition :: "position \<Rightarrow> db \<Rightarrow> db" where
  "savePosition p d = d\<lparr>positions := upsert positionKey p (positions d)\<rparr>"

definition removePosition :: "position \<Rightarrow> db \<Rightarrow> db" where
  "removePosition p d =
     d\<lparr>positions := filter (\<lambda>q. positionKey q \<noteq> positionKey p) (positions d)\<rparr>"

definition savePortfolio :: "portfolio \<Rightarrow> db \<Rightarrow> db" where
  "savePortfolio p d = d\<lparr>portfolios := upsert pfId p (portfolios d)\<rparr>"

text \<open>\<^verbatim>\<open>portfolioRepository.findOne({ where: { userId } })\<close>\<close>

definition findPortfolio :: "nat \<Rightarrow> db \<Rightarrow> portfolio option" where
  "findPortfolio uid d = find (\<lambda>p. pfUserId p = uid) (portfolios d)"

text \<open>\<^verbatim>\<open>positionRepository.findOne({ where: { portfolioId, bondId } })\<close>\<close>

definition findPosition :: "nat \<Rightarrow> nat \<Rightarrow> db \<Rightarrow> position option" where
  "findPosition pid bid d =
     find (\<lambda>p. portfolioId p = pid \<and> posBondId p = bid) (positions d)"

text \<open>\<^verbatim>\<open>positionRepository.findOne({ where: { portfolio: { userId }, bondId } })\<close>:
  the position joined with its portfolio.\<close>

definition findPositionOfUser :: "nat \<Rightarrow> nat \<Rightarrow> db \<Rightarrow> position option" where
  "findPositionOfUser uid bid d =
     find (\<lambda>p. posBondId p = bid \<and>
                list_ex (\<lambda>pf. pfId pf = portfolioId p \<and> pfUserId pf = uid) (portfolios d))
          (positions d)"

text \<open>\<^verbatim>\<open>orderRepository.findOne({ where: { id: orderId, userId } })\<close>\<close>

definition findOrder :: "nat \<Rightarrow> nat \<Rightarrow> db \<Rightarrow> order option" where
  "findOrder oid uid d = find (\<lambda>ord. orderId ord = oid \<and> userId ord = uid) (orders d)"

text \<open>
  The ordered query of \<^verbatim>\<open>matchOrder\<close> and \<^verbatim>\<open>getOrderBookSide\<close>:
  \<^verbatim>\<open>where: { bondId, side, status: 'OPEN' }\<close>,
  \<^verbatim>\<open>order: { priceLimit: side === 'BUY' ? 'DESC' : 'ASC', createdAt: 'ASC' }\<close>.
  \<open>rowBefore sd a b\<close> says that row \<open>a\<close> sorts strictly before row \<open>b\<close>; a missing price
  sorts last ascending and first descending, as PostgreSQL places \<^verbatim>\<open>NULL\<close>. Rows that tie
  on both columns keep their table order.
\<close>

fun priceBefore :: "side \<Rightarrow> rat option \<Rightarrow> rat option \<Rightarrow> bool" where
  "priceBefore SELL (Some x) (Some y) = (x < y)"
| "priceBefore SELL (Some x) None = True"
| "priceBefore SELL None _ = False"
| "priceBefore BUY (Some x) (Some y) = (y < x)"
| "priceBefore BUY None (Some y) = True"
| "priceBefore BUY _ None = False"

definition rowBefore :: "side \<Rightarrow> order \<Rightarrow> order \<Rightarrow> bool" where
  "rowBefore sd a b =
     (priceBefore sd (priceLimit a) (priceLimit b) \<or>
      (priceLimit a = priceLimit b \<and> createdAt a < createdAt b))"

fun insertBy :: "('a \<Rightarrow> 'a \<Rightarrow> bool) \<Rightarrow> 'a \<Rightarrow> 'a list \<Rightarrow> 'a list" where
  "insertBy prec x [] = [x]"
| "insertBy prec x (y # ys) =
     (if prec y x then y # insertBy prec x ys else x # y # ys)"

definition sortBy :: "('a \<Rightarrow> 'a \<Rightarrow> bool) \<Rightarrow> 'a list \<Rightarrow> 'a list" where
  "sortBy prec xs = foldr (insertBy prec) xs []"

definition findOpenOrders :: "nat \<Rightarrow> side \<Rightarrow> db \<Rightarrow> order list" where
  "findOpenOrders bid sd d =
     sortBy (rowBefore sd)
       (filter (\<lambda>ord. bondId ord = bid \<and> side ord = sd \<and> status ord = OPEN) (orders d))"

subsection \<open>The service\<close>

text \<open>\<^verbatim>\<open>validateOrder\<close> (lines 127 to 151). \<^verbatim>\<open>(order.priceLimit || 0)\<close> is the limit
  price, and 0 when there is none.\<close>

definition validateOrder :: "order \<Rightarrow> db \<Rightarrow> error + unit" where
  "validateOrder ord d =
     (if side ord = BUY then
        (case findPortfolio (userId ord) d of
           None \<Rightarrow> Inl TypeError
         | Some pf \<Rightarrow>
             (let requiredAmount =
                    (case priceLimit ord of None \<Rightarrow> 0 | Some p \<Rightarrow> p) * of_int (qtyUnits ord)
              in if cashBalance pf < requiredAmount then Inl InsufficientCash else Inr ()))
      else
        (case findPositionOfUser (userId ord) (bondId ord) d of
           None \<Rightarrow> Inl InsufficientPosition
         | Some pos \<Rightarrow>
             if posQtyUnits pos < qtyUnits ord then Inl InsufficientPosition else Inr ()))"

text \<open>\<^verbatim>\<open>canMatch\<close> (lines 184 to 194).\<close>

fun numGe :: "rat option \<Rightarrow> rat option \<Rightarrow> bool" where
  "numGe (Some x) (Some y) = (y \<le> x)"
| "numGe _ _ = False"

definition canMatch :: "order \<Rightarrow> order \<Rightarrow> bool" where
  "canMatch ord oppositeOrder =
     (if orderType ord = MARKET then True
      else if side ord = BUY then numGe (priceLimit ord) (priceLimit oppositeOrder)
      else numGe (priceLimit oppositeOrder) (priceLimit ord))"

text \<open>\<^verbatim>\<open>updatePositions\<close> (lines 233 to 288). The first component of the result is the
  exception thrown, if any; the database returned holds what was saved before it.\<close>

definition jsDiv :: "rat option \<Rightarrow> int \<Rightarrow> rat option" where
  "jsDiv x n = (case x of None \<Rightarrow> None
                | Some c \<Rightarrow> if n = 0 then None else Some (c / of_int n))"

definition updatePositions :: "order \<Rightarrow> order \<Rightarrow> rat \<Rightarrow> int \<Rightarrow> db \<Rightarrow> error option \<times> db" where
  "updatePositions buyOrder sellOrder prc qty d =
     (case findPortfolio (userId buyOrder) d of
        None \<Rightarrow> (Some TypeError, d)
      | Some buyerPortfolio \<Rightarrow>
          (let buyerPosition =
                 (case findPosition (pfId buyerPortfolio) (bondId buyOrder) d of
                    None \<Rightarrow> \<lparr>portfolioId = pfId buyerPortfolio, posBondId = bondId buyOrder,
                              posQtyUnits = 0, avgPricePerUnit = Some 0\<rparr>
                  | Some p \<Rightarrow> p);
               totalCost =
                 (case avgPricePerUnit buyerPosition of
                    None \<Rightarrow> None
                  | Some a \<Rightarrow> Some (a * of_int (posQtyUnits buyerPosition) + prc * of_int qty));
               totalQty = posQtyUnits buyerPosition + qty;
               d1 = savePosition
                      (buyerPosition\<lparr>avgPricePerUnit := jsDiv totalCost totalQty,
                                      posQtyUnits := totalQty\<rparr>) d
           in case findPortfolio (userId sellOrder) d1 of
                None \<Rightarrow> (Some TypeError, d1)
              | Some sellerPortfolio \<Rightarrow>
                  (case findPosition (pfId sellerPortfolio) (bondId sellOrder) d1 of
                     None \<Rightarrow> (None, d1)
                   | Some sp \<Rightarrow>
                       (let sellerPosition = sp\<lparr>posQtyUnits := posQtyUnits sp - qty\<rparr>
                        in if posQtyUnits sellerPosition \<le> 0
                           then (None, removePosition sellerPosition d1)
                           else (None, savePosition sellerPosition d1)))))"

text \<open>\<^verbatim>\<open>updatePortfolios\<close> (lines 290 to 311).\<close>

definition updatePortfolios :: "order \<Rightarrow> order \<Rightarrow> rat \<Rightarrow> int \<Rightarrow> db \<Rightarrow> error option \<times> db" where
  "updatePortfolios buyOrder sellOrder prc qty d =
     (let tradeAmount = prc * of_int qty
      in case findPortfolio (userId buyOrder) d of
           None \<Rightarrow> (Some TypeError, d)
         | Some buyerPortfolio \<Rightarrow>
             (let d1 = savePortfolio
                         (buyerPortfolio\<lparr>cashBalance := cashBalance buyerPortfolio - tradeAmount\<rparr>) d
              in case findPortfolio (userId sellOrder) d1 of
                   None \<Rightarrow> (Some TypeError, d1)
                 | Some sellerPortfolio \<Rightarrow>
                     (None, savePortfolio
                              (sellerPortfolio\<lparr>cashBalance :=
                                 cashBalance sellerPortfolio + tradeAmount\<rparr>) d1)))"

text \<open>
  \<^verbatim>\<open>executeTrade\<close> (lines 196 to 231). Both orders are objects in memory which the method
  changes in place, so the result carries them along with the database: the outcome (the
  exception thrown, or the trade), the first order, the second order, the database.
  Neither order is saved here.
\<close>

definition executeTrade :: "order \<Rightarrow> order \<Rightarrow> db \<Rightarrow> (error + trade) \<times> order \<times> order \<times> db" where
  "executeTrade buyOrder sellOrder d =
     (let remainingBuyQty = qtyUnits buyOrder - qtyFilledUnits buyOrder;
          remainingSellQty = qtyUnits sellOrder - qtyFilledUnits sellOrder;
          tradeQty = min remainingBuyQty remainingSellQty;
          tradePrice = (if createdAt buyOrder \<le> createdAt sellOrder
                        then priceLimit buyOrder else priceLimit sellOrder)
      in case tradePrice of
           None \<Rightarrow> (Inl QueryFailed, buyOrder, sellOrder, d)
         | Some prc \<Rightarrow>
             (let trade = \<lparr>buyOrderId = orderId buyOrder, sellOrderId = orderId sellOrder,
                           tradeBondId = bondId buyOrder, pricePerUnit = prc,
                           tradeQtyUnits = tradeQty\<rparr>;
                  d1 = saveTrade trade d;
                  buyOrder' = buyOrder\<lparr>qtyFilledUnits := qtyFilledUnits buyOrder + tradeQty\<rparr>;
                  sellOrder' = sellOrder\<lparr>qtyFilledUnits := qtyFilledUnits sellOrder + tradeQty\<rparr>
              in case updatePositions buyOrder' sellOrder' prc tradeQty d1 of
                   (Some e, d2) \<Rightarrow> (Inl e, buyOrder', sellOrder', d2)
                 | (None, d2) \<Rightarrow>
                     (case updatePortfolios buyOrder' sellOrder' prc tradeQty d2 of
                        (Some e, d3) \<Rightarrow> (Inl e, buyOrder', sellOrder', d3)
                      | (None, d3) \<Rightarrow> (Inr trade, buyOrder', sellOrder', d3))))"

text \<open>
  \<^verbatim>\<open>matchOrder\<close> (lines 153 to 182). \<open>matchLoop\<close> is the \<^verbatim>\<open>for\<close> loop over the rows read
  once before it; it threads the incoming order, the trades collected and the database. The
  incoming order is always the first argument of \<^verbatim>\<open>executeTrade\<close>, whatever its side.
  An exception leaves the loop with the order and the database as they are at that point.
\<close>

fun matchLoop :: "order list \<Rightarrow> order \<Rightarrow> trade list \<Rightarrow> db \<Rightarrow> error option \<times> order \<times> trade list \<times> db" where
  "matchLoop [] ord ts d = (None, ord, ts, d)"
| "matchLoop (oppositeOrder # rest) ord ts d =
     (if qtyUnits ord \<le> qtyFilledUnits ord then (None, ord, ts, d)
      else if qtyUnits oppositeOrder \<le> qtyFilledUnits oppositeOrder then matchLoop rest ord ts d
      else if canMatch ord oppositeOrder then
        (case executeTrade ord oppositeOrder d of
           (Inl e, ord', _, d') \<Rightarrow> (Some e, ord', ts, d')
         | (Inr t, ord', _, d') \<Rightarrow> matchLoop rest ord' (ts @ [t]) d')
      else matchLoop rest ord ts d)"

definition oppositeSide :: "side \<Rightarrow> side" where
  "oppositeSide sd = (if sd = BUY then SELL else BUY)"

definition matchOrder :: "order \<Rightarrow> db \<Rightarrow> error option \<times> order \<times> trade list \<times> db" where
  "matchOrder ord d =
     matchLoop (findOpenOrders (bondId ord) (oppositeSide (side ord)) d) ord [] d"

text \<open>
  \<^verbatim>\<open>addOrder\<close> (lines 54 to 91). On an exception the \<^verbatim>\<open>catch\<close> block marks the order
  (as the loop left it) CANCELLED, saves it and throws again.
\<close>

definition finalStatus :: "order \<Rightarrow> status" where
  "finalStatus ord =
     (if qtyFilledUnits ord = qtyUnits ord then EXECUTED
      else if 0 < qtyFilledUnits ord then PARTIAL
      else if orderType ord = MARKET then CANCELLED
      else OPEN)"

definition addOrder :: "order \<Rightarrow> db \<Rightarrow> (error + order \<times> trade list) \<times> db" where
  "addOrder ord d =
     (case validateOrder ord d of
        Inl e \<Rightarrow> (Inl e, saveOrder (ord\<lparr>status := CANCELLED\<rparr>) d)
      | Inr _ \<Rightarrow>
          (case matchOrder ord d of
             (Some e, ord', ts, d') \<Rightarrow> (Inl e, saveOrder (ord'\<lparr>status := CANCELLED\<rparr>) d')
           | (None, ord', ts, d') \<Rightarrow>
               (let ord'' = ord'\<lparr>status := finalStatus ord'\<rparr>
                in (Inr (ord'', ts), saveOrder ord'' d'))))"

text \<open>\<^verbatim>\<open>cancelOrder\<close> (lines 111 to 125).\<close>

definition cancelOrder :: "nat \<Rightarrow> nat \<Rightarrow> db \<Rightarrow> bool \<times> db" where
  "cancelOrder oid uid d =
     (case findOrder oid uid d of
        None \<Rightarrow> (False, d)
      | Some ord \<Rightarrow>
          if status ord \<noteq> OPEN then (False, d)
          else (True, saveOrder (ord\<lparr>status := CANCELLED\<rparr>) d))"

text \<open>
  \<^verbatim>\<open>getOrderBookSide\<close> (lines 342 to 379). \<open>addToLevels\<close> is one round of the grouping loop
  over a \<^verbatim>\<open>Map\<close> that keeps its keys in insertion order. The final \<^verbatim>\<open>sort\<close> is stable;
  \<open>levelBefore\<close> says that its comparator is negative. With a missing price the comparator
  is \<^verbatim>\<open>NaN\<close> and the place of that level is up to the JavaScript engine; the model keeps
  it where the grouping put it.
\<close>

definition addToLevels :: "orderBookLevel list \<Rightarrow> order \<Rightarrow> orderBookLevel list" where
  "addToLevels levels ord =
     (let levels' = (if list_ex (\<lambda>l. price l = priceLimit ord) levels then levels
                     else levels @ [\<lparr>price = priceLimit ord, quantity = 0, levelOrders = []\<rparr>])
      in map (\<lambda>l. if price l = priceLimit ord
                   then l\<lparr>quantity := quantity l + (qtyUnits ord - qtyFilledUnits ord),
                          levelOrders := levelOrders l @ [ord]\<rparr>
                   else l) levels')"

fun levelBefore :: "side \<Rightarrow> orderBookLevel \<Rightarrow> orderBookLevel \<Rightarrow> bool" where
  "levelBefore sd a b =
     (case (price a, price b) of
        (Some x, Some y) \<Rightarrow> (if sd = BUY then y < x else x < y)
      | _ \<Rightarrow> False)"

definition getOrderBookSide :: "nat \<Rightarrow> side \<Rightarrow> db \<Rightarrow> orderBookLevel list" where
  "getOrderBookSide bid sd d =
     sortBy (levelBefore sd) (foldl addToLevels [] (findOpenOrders bid sd d))"

text \<open>The orders shown on one side of a bond's book, and the units of a bond held in all
  positions.\<close>

definition bookOrders :: "nat \<Rightarrow> side \<Rightarrow> db \<Rightarrow> order list" where
  "bookOrders bid sd d = concat (map levelOrders (getOrderBookSide bid sd d))"


subsection \<open>Concrete markets\<close>

text \<open>
  The market of the specification's scenario: user 1 holds 200 units of bond 1 and no
  cash, user 2 holds 20000 in cash and no units. \<open>orderS1\<close>, \<open>orderB1\<close> and \<open>orderS2\<close> are
  the scenario's three orders, submitted in this order.
\<close>

definition scenarioDb :: db where
  "scenarioDb =
     \<lparr>orders = [], trades = [],
      positions = [\<lparr>portfolioId = 1, posBondId = 1, posQtyUnits = 200,
                    avgPricePerUnit = Some 95\<rparr>],
      portfolios = [\<lparr>pfId = 1, pfUserId = 1, cashBalance = 0\<rparr>,
                    \<lparr>pfId = 2, pfUserId = 2, cashBalance = 20000\<rparr>]\<rparr>"

definition orderS1 :: order where
  "orderS1 = \<lparr>orderId = 1, userId = 1, bondId = 1, side = SELL, orderType = LIMIT,
              priceLimit = Some 98, qtyUnits = 100, qtyFilledUnits = 0, status = OPEN,
              createdAt = 1\<rparr>"

definition orderB1 :: order where
  "orderB1 = \<lparr>orderId = 2, userId = 2, bondId = 1, side = BUY, orderType = LIMIT,
              priceLimit = Some 99, qtyUnits = 150, qtyFilledUnits = 0, status = OPEN,
              createdAt = 2\<rparr>"


definition afterS1 :: db where
  "afterS1 = snd (addOrder orderS1 scenarioDb)"

definition afterB1 :: db where
  "afterB1 = snd (addOrder orderB1 afterS1)"





text \<open>Market orders to buy: one of user 2 while no ask rests, one of user 1 (who has no
  cash) while \<open>orderS1\<close> rests, one of user 2 for more than \<open>orderS1\<close> offers.\<close>

definition marketBuyNoAsk :: order where
  "marketBuyNoAsk = \<lparr>orderId = 1, userId = 2, bondId = 1, side = BUY, orderType = MARKET,
                     priceLimit = None, qtyUnits = 10, qtyFilledUnits = 0, status = OPEN,
                     createdAt = 1\<rparr>"

definition marketBuyNoCash :: order where
  "marketBuyNoCash = \<lparr>orderId = 2, userId = 1, bondId = 1, side = BUY, orderType = MARKET,
                      priceLimit = None, qtyUnits = 10, qtyFilledUnits = 0, status = OPEN,
                      createdAt = 2\<rparr>"






section \<open>Properties\<close>

subsection \<open>Facts about the repositories and the book\<close>

text \<open>Sorting keeps the rows, so the ordered query returns exactly the OPEN rows of the
  bond and side, and the levels of a book side hold exactly those rows.\<close>

lemma set_insertBy: "set (insertBy prec x ys) = insert x (set ys)"
  by (induction ys) auto

lemma set_sortBy: "set (sortBy prec xs) = set xs"
  unfolding sortBy_def by (induction xs) (simp_all add: set_insertBy)

lemma set_findOpenOrders:
  "set (findOpenOrders bid sd d) =
     {ord \<in> set (orders d). bondId ord = bid \<and> side ord = sd \<and> status ord = OPEN}"
  by (auto simp: findOpenOrders_def set_sortBy)

lemma levelOrders_addToLevels:
  "(\<Union>l \<in> set (addToLevels levels ord). set (levelOrders l)) =
     insert ord (\<Union>l \<in> set levels. set (levelOrders l))"
  unfolding addToLevels_def Let_def
  by (auto simp: list_ex_iff split: if_splits)

lemma levelOrders_foldl:
  "(\<Union>l \<in> set (foldl addToLevels levels os). set (levelOrders l)) =
     set os \<union> (\<Union>l \<in> set levels. set (levelOrders l))"
proof (induction os arbitrary: levels)
  case Nil
  show ?case by simp
next
  case (Cons a os)
  show ?case
    by (simp only: foldl.simps Cons.IH levelOrders_addToLevels) auto
qed

lemma set_bookOrders: "set (bookOrders bid sd d) = set (findOpenOrders bid sd d)"
  by (simp add: bookOrders_def getOrderBookSide_def set_sortBy levelOrders_foldl)

lemma bookOrders_open: "x \<in> set (bookOrders bid sd d) \<Longrightarrow> status x = OPEN"
  by (simp add: set_bookOrders set_findOpenOrders)

lemma upsert_same_key: "x \<in> set (upsert key y xs) \<Longrightarrow> key x = key y \<Longrightarrow> x = y"
  by (auto simp: upsert_def list_ex_iff split: if_splits)

text \<open>Looking a row up after \<open>upsert\<close>, by the key itself and by another column.\<close>

lemma find_upsert_hit:
  "find P xs = Some a \<Longrightarrow> key x = key a \<Longrightarrow> P x \<Longrightarrow> find P (upsert key x xs) = Some x"
proof -
  assume f: "find P xs = Some a" and k: "key x = key a" and p: "P x"
  from f have "a \<in> set xs" by (auto simp: find_Some_iff)
  with k have ex: "list_ex (\<lambda>y. key y = key x) xs" by (auto simp: list_ex_iff)
  from f p have "find P (map (\<lambda>y. if key y = key x then x else y) xs) = Some x"
  proof (induction xs)
    case Nil
    then show ?case by simp
  next
    case (Cons y ys)
    then show ?case using k by (auto split: if_splits)
  qed
  with ex show ?thesis by (simp add: upsert_def)
qed












lemma findPortfolio_position_table [simp]:
  "findPortfolio u (savePosition p d) = findPortfolio u d"
  "findPortfolio u (removePosition p d) = findPortfolio u d"
  by (simp_all add: findPortfolio_def savePosition_def removePosition_def)

lemma findPosition_portfolio_table [simp]:
  "findPosition pid bid (savePortfolio p d) = findPosition pid bid d"
  by (simp add: findPosition_def savePortfolio_def)




subsection \<open>Facts about one trade and about the matching loop\<close>





text \<open>No step of matching writes the orders table.\<close>

lemma updatePositions_keeps_orders:
  "orders (snd (updatePositions buyOrder sellOrder p q d)) = orders d"
  by (simp add: updatePositions_def Let_def savePosition_def removePosition_def
      split: option.splits)

lemma updatePortfolios_keeps_orders:
  "orders (snd (updatePortfolios buyOrder sellOrder p q d)) = orders d"
  by (simp add: updatePortfolios_def Let_def savePortfolio_def split: option.splits)

lemma executeTrade_keeps_orders:
  assumes "executeTrade a b d = (r, a', b', d')"
  shows "orders d' = orders d"
proof (cases "if createdAt a \<le> createdAt b then priceLimit a else priceLimit b")
  case None
  with assms show ?thesis unfolding executeTrade_def Let_def by simp
next
  case (Some prc)
  let ?q = "min (qtyUnits a - qtyFilledUnits a) (qtyUnits b - qtyFilledUnits b)"
  let ?a = "a\<lparr>qtyFilledUnits := qtyFilledUnits a + ?q\<rparr>"
  let ?b = "b\<lparr>qtyFilledUnits := qtyFilledUnits b + ?q\<rparr>"
  let ?d1 = "saveTrade \<lparr>buyOrderId = orderId a, sellOrderId = orderId b,
                         tradeBondId = bondId a, pricePerUnit = prc, tradeQtyUnits = ?q\<rparr> d"
  let ?d2 = "snd (updatePositions ?a ?b prc ?q ?d1)"
  let ?d3 = "snd (updatePortfolios ?a ?b prc ?q ?d2)"
  from assms Some have "d' = ?d2 \<or> d' = ?d3"
    unfolding executeTrade_def Let_def by (auto split: prod.splits option.splits)
  moreover have "orders ?d1 = orders d" by (simp add: saveTrade_def)
  ultimately show ?thesis
    by (auto simp: updatePositions_keeps_orders updatePortfolios_keeps_orders)
qed

lemma matchLoop_keeps_orders:
  "matchLoop rs ord ts d = (e, ord', ts', d') \<Longrightarrow> orders d' = orders d"
proof (induction rs arbitrary: ord ts d)
  case Nil
  then show ?case by simp
next
  case (Cons r rs)
  obtain res a' b' d1 where ex: "executeTrade ord r d = (res, a', b', d1)"
    by (cases "executeTrade ord r d") auto
  note keep = executeTrade_keeps_orders[OF ex]
  from Cons.prems ex consider "d' = d" | "d' = d1"
    | "matchLoop rs ord ts d = (e, ord', ts', d')"
    | t where "matchLoop rs a' (ts @ [t]) d1 = (e, ord', ts', d')"
    by (auto split: if_splits sum.splits)
  then show ?case
    using keep Cons.IH by cases auto
qed

lemma matchOrder_keeps_orders:
  "matchOrder ord d = (e, ord', ts, d') \<Longrightarrow> orders d' = orders d"
  unfolding matchOrder_def by (rule matchLoop_keeps_orders)



subsection \<open>Partially filled limit orders and the book\<close>


subsection \<open>The resting order after a match\<close>


subsection \<open>The price of a trade\<close>




subsection \<open>Conservation of units and non-negative balances\<close>



subsection \<open>Validation of market orders to buy\<close>

text \<open>
  Claim C6 as the specification states it fails twice. With no ask resting, the market
  order to buy \<open>marketBuyNoAsk\<close> is not rejected: \<open>addOrder\<close> returns it, CANCELLED, and
  has saved it. With \<open>orderS1\<close> resting at 98, user 1 without any cash passes validation
  of a market order to buy 10 units.
\<close>

theorem C6_no_liquidity_counterexample:
  "findOpenOrders 1 SELL scenarioDb = []
   \<and> addOrder marketBuyNoAsk scenarioDb
     = (Inr (marketBuyNoAsk\<lparr>status := CANCELLED\<rparr>, []),
        scenarioDb\<lparr>orders := [marketBuyNoAsk\<lparr>status := CANCELLED\<rparr>]\<rparr>)
   \<and> findOpenOrders 1 SELL afterS1 = [orderS1]
   \<and> findPortfolio 1 afterS1 = Some \<lparr>pfId = 1, pfUserId = 1, cashBalance = 0\<rparr>
   \<and> validateOrder marketBuyNoCash afterS1 = Inr ()"
  by code_simp

text \<open>
  Claim C6 (amended). For a MARKET order to buy that carries no limit price, of a user who
  has a portfolio: validation compares the cash with 0 only, so it passes exactly when the
  cash is not negative and fails with the insufficient-cash error otherwise; its outcome
  does not depend on the orders table, hence on no resting ask. When no ask rests, a new
  order (nothing filled, positive quantity) that passes validation is not rejected:
  \<open>addOrder\<close> returns it with status CANCELLED and no trade, and saves it so.
\<close>

theorem C6_market_buy_validation:
  assumes "side ord = BUY" and "orderType ord = MARKET" and "priceLimit ord = None"
    and "findPortfolio (userId ord) d = Some pf"
  shows "(validateOrder ord d = Inr () \<longleftrightarrow> 0 \<le> cashBalance pf) \<and>
         (validateOrder ord d = Inl InsufficientCash \<longleftrightarrow> cashBalance pf < 0) \<and>
         (\<forall>os. validateOrder ord (d\<lparr>orders := os\<rparr>) = validateOrder ord d) \<and>
         (0 \<le> cashBalance pf \<and> findOpenOrders (bondId ord) SELL d = [] \<and>
          qtyFilledUnits ord = 0 \<and> 0 < qtyUnits ord \<longrightarrow>
            addOrder ord d = (Inr (ord\<lparr>status := CANCELLED\<rparr>, []),
                              saveOrder (ord\<lparr>status := CANCELLED\<rparr>) d))"
  using assms
  by (auto simp: validateOrder_def addOrder_def matchOrder_def oppositeSide_def
      finalStatus_def findPortfolio_def Let_def)

text \<open>The amended claim at \<open>marketBuyNoAsk\<close> in the market without orders.\<close>

theorem C6_market_buy_validation_witness:
  "side marketBuyNoAsk = BUY \<and> orderType marketBuyNoAsk = MARKET \<and>
   priceLimit marketBuyNoAsk = None \<and>
   findPortfolio (userId marketBuyNoAsk) scenarioDb
     = Some \<lparr>pfId = 2, pfUserId = 2, cashBalance = 20000\<rparr> \<and>
   findOpenOrders (bondId marketBuyNoAsk) SELL scenarioDb = [] \<and>
   validateOrder marketBuyNoAsk scenarioDb = Inr () \<and>
   addOrder marketBuyNoAsk scenarioDb
     = (Inr (marketBuyNoAsk\<lparr>status := CANCELLED\<rparr>, []),
        saveOrder (marketBuyNoAsk\<lparr>status := CANCELLED\<rparr>) scenarioDb)"
proof -
  have h1: "side marketBuyNoAsk = BUY" and h2: "orderType marketBuyNoAsk = MARKET"
    and h3: "priceLimit marketBuyNoAsk = None"
    by (simp_all add: marketBuyNoAsk_def)
  have h4: "findPortfolio (userId marketBuyNoAsk) scenarioDb
     = Some \<lparr>pfId = 2, pfUserId = 2, cashBalance = 20000\<rparr>" by code_simp
  have h5: "findOpenOrders (bondId marketBuyNoAsk) SELL scenarioDb = []" by code_simp
  have h6: "qtyFilledUnits marketBuyNoAsk = 0" "0 < qtyUnits marketBuyNoAsk"
    by (simp_all add: marketBuyNoAsk_def)
  from C6_market_buy_validation[OF h1 h2 h3 h4] h1 h2 h3 h4 h5 h6 show ?thesis by simp
qed

subsection \<open>Market orders that cannot be filled completely\<close>




subsection \<open>Cancellation\<close>

text \<open>
  Claim C8 as the specification states it, a PARTIAL order being cancellable by its owner,
  fails: after the scenario's first match \<open>orderB1\<close> is PARTIAL, and its owner's request
  to cancel it returns false and changes nothing.
\<close>

theorem C8_cancel_partial_counterexample:
  "findOrder 2 2 afterB1 = Some (orderB1\<lparr>qtyFilledUnits := 100, status := PARTIAL\<rparr>)
   \<and> cancelOrder 2 2 afterB1 = (False, afterB1)"
  by code_simp

text \<open>
  Claim C8 (amended). \<open>cancelOrder\<close> answers with a boolean and raises no error. It
  returns false and leaves the database as it is when the requester owns no order with
  that id (a missing order and another user's order are not told apart) and when the
  order's status is not OPEN, which includes PARTIAL, EXECUTED and CANCELLED; a call that
  fails keeps failing without effect however often it is repeated. When the order is
  OPEN, it returns true and stores the order with status CANCELLED and every other field,
  the filled quantity among them, as before; trades, positions and portfolios are
  untouched, no side of any bond's book shows the order any more, and a second request
  returns false without effect.
\<close>

theorem C8_cancel_contract:
  "(findOrder oid uid d = None \<longrightarrow> cancelOrder oid uid d = (False, d)) \<and>
   (\<forall>ord. findOrder oid uid d = Some ord \<and> status ord \<noteq> OPEN \<longrightarrow>
      cancelOrder oid uid d = (False, d)) \<and>
   (\<forall>n. cancelOrder oid uid d = (False, d) \<longrightarrow>
      ((\<lambda>s. snd (cancelOrder oid uid s)) ^^ n) d = d) \<and>
   (\<forall>ord. findOrder oid uid d = Some ord \<and> status ord = OPEN \<longrightarrow>
      (let d' = snd (cancelOrder oid uid d) in
         fst (cancelOrder oid uid d) = True \<and>
         findOrder oid uid d' = Some (ord\<lparr>status := CANCELLED\<rparr>) \<and>
         trades d' = trades d \<and> positions d' = positions d \<and> portfolios d' = portfolios d \<and>
         (\<forall>bid sd. oid \<notin> orderId ` set (bookOrders bid sd d')) \<and>
         cancelOrder oid uid d' = (False, d')))"
proof (intro conjI allI impI)
  show "cancelOrder oid uid d = (False, d)" if "findOrder oid uid d = None"
    using that by (simp add: cancelOrder_def)
next
  fix ord
  assume "findOrder oid uid d = Some ord \<and> status ord \<noteq> OPEN"
  then show "cancelOrder oid uid d = (False, d)" by (simp add: cancelOrder_def)
next
  fix n
  assume "cancelOrder oid uid d = (False, d)"
  then show "((\<lambda>s. snd (cancelOrder oid uid s)) ^^ n) d = d"
    by (induction n) simp_all
next
  fix ord
  assume a: "findOrder oid uid d = Some ord \<and> status ord = OPEN"
  let ?c = "ord\<lparr>status := CANCELLED\<rparr>"
  from a have c: "cancelOrder oid uid d = (True, saveOrder ?c d)"
    by (simp add: cancelOrder_def)
  from a have ids: "orderId ord = oid" "userId ord = uid"
    by (auto simp: findOrder_def find_Some_iff)
  have f: "findOrder oid uid (saveOrder ?c d) = Some ?c"
    using a ids unfolding findOrder_def saveOrder_def
    by (simp add: find_upsert_hit[where a = ord])
  have book: "oid \<notin> orderId ` set (bookOrders bid sd (saveOrder ?c d))" for bid sd
  proof
    assume "oid \<in> orderId ` set (bookOrders bid sd (saveOrder ?c d))"
    then obtain x where x: "x \<in> set (orders (saveOrder ?c d))" "status x = OPEN" "orderId x = oid"
      by (auto simp: set_bookOrders set_findOpenOrders)
    then have "x = ?c" using ids
      by (auto simp: saveOrder_def dest: upsert_same_key)
    with x show False by simp
  qed
  show "let d' = snd (cancelOrder oid uid d) in
         fst (cancelOrder oid uid d) = True \<and>
         findOrder oid uid d' = Some (ord\<lparr>status := CANCELLED\<rparr>) \<and>
         trades d' = trades d \<and> positions d' = positions d \<and> portfolios d' = portfolios d \<and>
         (\<forall>bid sd. oid \<notin> orderId ` set (bookOrders bid sd d')) \<and>
         cancelOrder oid uid d' = (False, d')"
    unfolding Let_def c using f book
    by (simp add: cancelOrder_def) (simp add: saveOrder_def)
qed

text \<open>The amended claim after the scenario's first match: an order nobody has, the
  PARTIAL \<open>orderB1\<close>, and the stored \<open>orderS1\<close>, which is OPEN.\<close>

theorem C8_cancel_contract_witness:
  "findOrder 9 9 afterB1 = None \<and> cancelOrder 9 9 afterB1 = (False, afterB1) \<and>
   findOrder 2 2 afterB1 = Some (orderB1\<lparr>qtyFilledUnits := 100, status := PARTIAL\<rparr>) \<and>
   cancelOrder 2 2 afterB1 = (False, afterB1) \<and>
   ((\<lambda>s. snd (cancelOrder 2 2 s)) ^^ 3) afterB1 = afterB1 \<and>
   findOrder 1 1 afterB1 = Some orderS1 \<and> status orderS1 = OPEN \<and>
   fst (cancelOrder 1 1 afterB1) = True \<and>
   findOrder 1 1 (snd (cancelOrder 1 1 afterB1)) = Some (orderS1\<lparr>status := CANCELLED\<rparr>) \<and>
   trades (snd (cancelOrder 1 1 afterB1)) = trades afterB1 \<and>
   cancelOrder 1 1 (snd (cancelOrder 1 1 afterB1)) = (False, snd (cancelOrder 1 1 afterB1))"
proof -
  have n: "findOrder 9 9 afterB1 = None" by code_simp
  have p: "findOrder 2 2 afterB1 = Some (orderB1\<lparr>qtyFilledUnits := 100, status := PARTIAL\<rparr>)"
    by code_simp
  have ps: "status (orderB1\<lparr>qtyFilledUnits := 100, status := PARTIAL\<rparr>) \<noteq> OPEN" by simp
  have o: "findOrder 1 1 afterB1 = Some orderS1" by code_simp
  have os: "status orderS1 = OPEN" by (simp add: orderS1_def)
  note c9 = C8_cancel_contract[of 9 9 afterB1] and c2 = C8_cancel_contract[of 2 2 afterB1] and c1 = C8_cancel_contract[of 1 1 afterB1]
  from c9 n have r1: "cancelOrder 9 9 afterB1 = (False, afterB1)" by blast
  from c2 p ps have r2: "cancelOrder 2 2 afterB1 = (False, afterB1)" by blast
  from c2 r2 have r3: "((\<lambda>s. snd (cancelOrder 2 2 s)) ^^ 3) afterB1 = afterB1" by blast
  from c1 o os have r4: "let d' = snd (cancelOrder 1 1 afterB1) in
         fst (cancelOrder 1 1 afterB1) = True \<and>
         findOrder 1 1 d' = Some (orderS1\<lparr>status := CANCELLED\<rparr>) \<and>
         trades d' = trades afterB1 \<and> positions d' = positions afterB1 \<and>
         portfolios d' = portfolios afterB1 \<and>
         (\<forall>bid sd. 1 \<notin> orderId ` set (bookOrders bid sd d')) \<and>
         cancelOrder 1 1 d' = (False, d')" by blast
  from n p o os r1 r2 r3 r4 show ?thesis by (simp add: Let_def)
qed

subsection \<open>Settlement of one trade\<close>



subsection \<open>Trading with oneself\<close>


end
